theory Spec2Isabelle
  imports Main "HOL-Library.Word" "HOL-Library.DAList"
begin

section \<open>The logging package of gear: a shallow embedding of logger.go\<close>

text \<open>
  The embedding is sequential: the mutex \<open>mu\<close> of \<open>Logger\<close> is not modelled, every
  method runs from start to end on its own. Methods with a pointer receiver take the
  object and return it updated; a Go panic is a returned value.
\<close>

subsection \<open>Severity levels\<close>

text \<open>\<open>type Level uint8\<close> and the constants \<open>EmergLevel = iota\<close> ... \<open>DebugLevel\<close>.\<close>

type_synonym Level = "8 word"

definition EmergLevel :: Level where "EmergLevel = 0"
definition AlertLevel :: Level where "AlertLevel = 1"
definition CritiLevel :: Level where "CritiLevel = 2"
definition ErrLevel :: Level where "ErrLevel = 3"
definition WarningLevel :: Level where "WarningLevel = 4"
definition NoticeLevel :: Level where "NoticeLevel = 5"
definition InfoLevel :: Level where "InfoLevel = 6"
definition DebugLevel :: Level where "DebugLevel = 7"

text \<open>\<open>func (l Level) String() string\<close>: the switch, case by case, with its default.\<close>

definition Level_String :: "Level \<Rightarrow> string" where
  "Level_String lv =
     (if lv = EmergLevel then ''EMERG''
      else if lv = AlertLevel then ''ALERT''
      else if lv = CritiLevel then ''CRIT''
      else if lv = ErrLevel then ''ERR''
      else if lv = WarningLevel then ''WARNING''
      else if lv = NoticeLevel then ''NOTICE''
      else if lv = InfoLevel then ''INFO''
      else if lv = DebugLevel then ''DEBUG''
      else ''LOG'')"

subsection \<open>Values, errors and the formatter\<close>

text \<open>A Go \<open>error\<close> value (also the value carried by a panic), by its message.\<close>

datatype error = Error string

text \<open>
  The values of type \<open>interface{}\<close> that reach the logger, as far as the package tells
  them apart: an \<open>int\<close>, a \<open>string\<close>, a value implementing \<open>Messager\<close> (given by what
  its methods \<open>Format()\<close> and \<open>String()\<close> return), and any other value (given by a tag).
\<close>

datatype val =
    IntV int
  | StrV string
  | MessagerV "string \<times> error option" string
  | OtherV nat

type_synonym time = int

text \<open>
  A \<open>Log\<close> handed to the logger as a value is a \<open>Messager\<close> too (with \<open>json.Marshal\<close>
  behind \<open>Format\<close> and \<open>GoString\<close> behind \<open>String\<close>).

  Functions the package calls and does not define: \<open>gear.ErrorWithStack(v, 2)\<close>,
  \<open>fmt.Sprint\<close>, \<open>fmt.Sprintf\<close> and \<open>t.UTC().Format(layout)\<close>. They are parameters of
  the embedding.
\<close>

record externals =
  ErrorWithStack :: "val \<Rightarrow> val"
  Sprint :: "val \<Rightarrow> string"
  Sprintf :: "string \<Rightarrow> val list \<Rightarrow> string"
  Time_Format :: "string \<Rightarrow> time \<Rightarrow> string"

text \<open>
  \<open>func format(i interface{}) (string, error)\<close>: the type switch takes the \<open>Messager\<close>
  case for a value with both methods, the default case for every other value.
\<close>

fun format :: "externals \<Rightarrow> val \<Rightarrow> string \<times> error option" where
  "format ext (MessagerV (str, err) dbg) =
     (if err = None then (str, None) else (dbg, err))"
| "format ext i = (Sprint ext i, None)"

text \<open>Whether the type switch of \<open>format\<close> finds the \<open>Messager\<close> capability.\<close>

fun is_Messager :: "val \<Rightarrow> bool" where
  "is_Messager (MessagerV f d) = True"
| "is_Messager v = False"

subsection \<open>Escaping\<close>

definition CR :: char where "CR = CHR 0x0D"
definition LF :: char where "LF = CHR 0x0A"
definition BSLASH :: char where "BSLASH = CHR 0x5C"

text \<open>
  \<open>crlfEscaper = strings.NewReplacer("\r", "\\r", "\n", "\\n")\<close>: both old strings are
  one byte long, so \<open>Replace\<close> goes through the bytes of its argument once and puts the
  two-byte replacement in the place of each matching byte.
\<close>

fun crlfEscaper_Replace :: "string \<Rightarrow> string" where
  "crlfEscaper_Replace [] = []"
| "crlfEscaper_Replace (c # cs) =
     (if c = CR then [BSLASH, CHR ''r'']
      else if c = LF then [BSLASH, CHR ''n'']
      else [c]) @ crlfEscaper_Replace cs"

text \<open>\<open>if l := len(s); l > 0 && s[l-1] == '\n' { s = s[0 : l-1] }\<close>\<close>

definition strip_newline :: "string \<Rightarrow> string" where
  "strip_newline s = (if length s > 0 \<and> s ! (length s - 1) = LF then take (length s - 1) s else s)"

subsection \<open>The destination writer\<close>

text \<open>
  An \<open>io.Writer\<close>: the bytes it has accepted so far, and how it answers the coming calls
  of \<open>Write\<close>. \<open>None\<close> accepts the whole slice; \<open>Some (n, e)\<close> accepts the first \<open>n\<close> bytes
  and returns the error \<open>e\<close>. Past the end of the list every call succeeds.
\<close>

datatype writer = Writer (written: string) (answers: "(nat \<times> error) option list")

fun Write :: "string \<Rightarrow> writer \<Rightarrow> error option \<times> writer" where
  "Write p (Writer buf []) = (None, Writer (buf @ p) [])"
| "Write p (Writer buf (None # as)) = (None, Writer (buf @ p) as)"
| "Write p (Writer buf (Some (n, e) # as)) = (Some e, Writer (buf @ take n p) as)"

subsection \<open>Log records on the heap\<close>

text \<open>
  \<open>type Log map[string]interface{}\<close>. A Go map is a reference: a \<open>Log\<close> is \<open>nil\<close> or
  points to a map object, and two \<open>Log\<close> values may point to the same object. The heap
  holds the map objects, each as the list of its entries with distinct keys (in the order
  \<open>range\<close> visits them), and the next free address.
\<close>

datatype Log = NilLog | LogAt nat

record heap =
  cells :: "nat \<Rightarrow> (string, val) alist"
  nxt :: nat

text \<open>The entries of a \<open>Log\<close>, as \<open>range\<close> and \<open>len\<close> see them: a nil map has none.\<close>

fun entries :: "heap \<Rightarrow> Log \<Rightarrow> (string \<times> val) list" where
  "entries h NilLog = []"
| "entries h (LogAt a) = DAList.impl_of (cells h a)"

text \<open>The index expression \<open>m[key]\<close> as a lookup: absent on a nil map.\<close>

fun Log_get :: "heap \<Rightarrow> Log \<Rightarrow> string \<Rightarrow> val option" where
  "Log_get h NilLog k = None"
| "Log_get h (LogAt a) k = DAList.lookup (cells h a) k"

definition len :: "heap \<Rightarrow> Log \<Rightarrow> nat" where
  "len h lg = length (entries h lg)"

text \<open>A reference is allocated when it is nil or points below the next free address.\<close>

fun allocated :: "heap \<Rightarrow> Log \<Rightarrow> bool" where
  "allocated h NilLog = True"
| "allocated h (LogAt a) = (a < nxt h)"

text \<open>The composite literal \<open>Log{}\<close>: a fresh, empty map object.\<close>

definition new_Log :: "heap \<Rightarrow> Log \<times> heap" where
  "new_Log h = (LogAt (nxt h), h\<lparr>cells := (cells h)(nxt h := DAList.empty), nxt := Suc (nxt h)\<rparr>)"

definition nil_map_panic :: error where
  "nil_map_panic = Error ''assignment to entry in nil map''"

text \<open>\<open>m[key] = val\<close>: Go panics when \<open>m\<close> is nil.\<close>

fun map_assign :: "Log \<Rightarrow> string \<Rightarrow> val \<Rightarrow> heap \<Rightarrow> error + heap" where
  "map_assign NilLog k v h = Inl nil_map_panic"
| "map_assign (LogAt a) k v h = Inr (h\<lparr>cells := (cells h)(a := DAList.update k v (cells h a))\<rparr>)"

text \<open>\<open>delete(m, key)\<close>: no effect on a nil map.\<close>

fun map_delete :: "Log \<Rightarrow> string \<Rightarrow> heap \<Rightarrow> heap" where
  "map_delete NilLog k h = h"
| "map_delete (LogAt a) k h = h\<lparr>cells := (cells h)(a := DAList.delete k (cells h a))\<rparr>"

text \<open>
  The loop \<open>for key, val := range src { dst[key] = val }\<close>, over the entries of \<open>src\<close>
  read when the loop starts. (When \<open>src\<close> and \<open>dst\<close> are the same object the loop stores
  into each key the value it already has, so no entry appears during the iteration.)
\<close>

fun copy_entries :: "(string \<times> val) list \<Rightarrow> Log \<Rightarrow> heap \<Rightarrow> error + heap" where
  "copy_entries [] dst h = Inr h"
| "copy_entries ((k, v) # kvs) dst h =
     (case map_assign dst k v h of
        Inl e \<Rightarrow> Inl e
      | Inr h' \<Rightarrow> copy_entries kvs dst h')"

text \<open>\<open>func (l Log) From(log Log) Log\<close>\<close>

definition From :: "Log \<Rightarrow> Log \<Rightarrow> heap \<Rightarrow> error + (Log \<times> heap)" where
  "From lg log h =
     (case copy_entries (entries h log) lg h of
        Inl e \<Rightarrow> Inl e
      | Inr h' \<Rightarrow> Inr (lg, h'))"

text \<open>\<open>func (l Log) Into(log Log) Log\<close>\<close>

definition Into :: "Log \<Rightarrow> Log \<Rightarrow> heap \<Rightarrow> error + (Log \<times> heap)" where
  "Into lg log h =
     (case copy_entries (entries h lg) log h of
        Inl e \<Rightarrow> Inl e
      | Inr h' \<Rightarrow> Inr (log, h'))"

text \<open>\<open>func (l Log) With(log map[string]interface{}) Log\<close>\<close>

definition With :: "Log \<Rightarrow> Log \<Rightarrow> heap \<Rightarrow> error + (Log \<times> heap)" where
  "With lg log h =
     (case new_Log h of (fresh, h0) \<Rightarrow>
        (case Into lg fresh h0 of
           Inl e \<Rightarrow> Inl e
         | Inr (cp, h1) \<Rightarrow>
             (case copy_entries (entries h1 log) cp h1 of
                Inl e \<Rightarrow> Inl e
              | Inr h2 \<Rightarrow> Inr (cp, h2))))"

text \<open>
  \<open>func (l Log) Reset()\<close>: the loop \<open>for key := range l { delete(l, key) }\<close>, over the
  keys present when it starts.
\<close>

fun delete_keys :: "string list \<Rightarrow> Log \<Rightarrow> heap \<Rightarrow> heap" where
  "delete_keys [] lg h = h"
| "delete_keys (k # ks) lg h = delete_keys ks lg (map_delete lg k h)"

definition Reset :: "Log \<Rightarrow> heap \<Rightarrow> heap" where
  "Reset lg h = delete_keys (map fst (entries h lg)) lg h"

subsection \<open>The Logger\<close>

text \<open>
  What a \<open>*gear.Context\<close> gives the package at the end of a unit of work: the response
  status \<open>ctx.Res.Status()\<close>, the response body \<open>ctx.Res.Body()\<close>, and the \<open>Log\<close> that
  \<open>ctx.Any(l)\<close> holds for the logger.
\<close>

record Context =
  Res_Status :: int
  Res_Body :: string
  Any_Log :: Log

text \<open>
  Everything the logger's methods act on: the writer behind the field \<open>Out\<close>, the heap of
  \<open>Log\<close> records, and the rest of the program's state \<open>extern\<close>, which hooks installed
  by the caller may read and change. Two more fields record calls, in order: every call
  of the \<open>output\<close> hook with its arguments, and every call of the \<open>consume\<close> hook.
\<close>

record 'x world =
  dest :: writer
  logs :: heap
  extern :: 'x
  output_calls :: "(string \<times> time \<times> val) list"
  consume_calls :: "(Log \<times> Context) list"

text \<open>
  The field \<open>output func(string, time.Time, interface{}) error\<close> holds the closure that
  \<open>New\<close> builds, or a function given to \<open>SetOutput\<close>, over the caller's state. The field
  \<open>consume func(Log, *gear.Context)\<close> holds a function over the record, the context and
  the caller's state.
\<close>

datatype 'x output_hook =
    New_output_hook
  | Set_output_hook "string \<Rightarrow> time \<Rightarrow> val \<Rightarrow> 'x \<Rightarrow> error option \<times> 'x"

type_synonym 'x consume_hook = "Log \<Rightarrow> Context \<Rightarrow> heap \<times> 'x \<Rightarrow> heap \<times> 'x"

text \<open>
  \<open>type Logger struct\<close>: the level \<open>l\<close>, the formats \<open>tf\<close> and \<open>lf\<close>, and the hooks
  \<open>output\<close> and \<open>consume\<close>. The writer of the field \<open>Out\<close> is \<open>dest\<close> of the world.
\<close>

record 'x Logger =
  Logger_l :: Level
  Logger_tf :: string
  Logger_lf :: string
  Logger_output :: "'x output_hook"
  Logger_consume :: "'x consume_hook"

text \<open>\<open>fmt.Fprintf(w, format, args...)\<close> formats into a buffer and calls \<open>w.Write\<close> once.\<close>

definition Fprintf :: "externals \<Rightarrow> string \<Rightarrow> val list \<Rightarrow> writer \<Rightarrow> error option \<times> writer" where
  "Fprintf ext fmt args wr = Write (Sprintf ext fmt args) wr"

text \<open>The message operand that the closure of \<open>New\<close> hands to \<open>Fprintf\<close> for a rendered string.\<close>

definition message_operand :: "string \<Rightarrow> string" where
  "message_operand s = crlfEscaper_Replace (strip_newline s)"

text \<open>\<open>logger.output = func(tag string, t time.Time, v interface{}) error\<close> in \<open>New\<close>.\<close>

definition New_output ::
  "externals \<Rightarrow> 'x Logger \<Rightarrow> string \<Rightarrow> time \<Rightarrow> val \<Rightarrow> 'x world \<Rightarrow> error option \<times> 'x world" where
  "New_output ext lg tag t v w =
     (case format ext v of
        (s, Some err) \<Rightarrow> (Some err, w)
      | (s, None) \<Rightarrow>
          (case Fprintf ext (Logger_lf lg)
                  [StrV (Time_Format ext (Logger_tf lg) t), StrV tag, StrV (message_operand s)]
                  (dest w) of
             (None, d1) \<Rightarrow> (None, w\<lparr>dest := snd (Write [LF] d1)\<rparr>)
           | (Some err, d1) \<Rightarrow> (Some err, w\<lparr>dest := d1\<rparr>)))"

text \<open>
  The bytes that \<open>Fprintf\<close> hands to \<open>Write\<close> in that closure, for the rendered string \<open>s\<close>.
\<close>

definition formatted_line :: "externals \<Rightarrow> 'x Logger \<Rightarrow> string \<Rightarrow> time \<Rightarrow> string \<Rightarrow> string" where
  "formatted_line ext lg tag t s =
     Sprintf ext (Logger_lf lg)
       [StrV (Time_Format ext (Logger_tf lg) t), StrV tag, StrV (message_operand s)]"

text \<open>
  \<open>func (l *Logger) Output(tag string, t time.Time, v interface{}) (err error)\<close>: the
  call \<open>l.output(tag, t, v)\<close> of the hook in the field, recorded in \<open>output_calls\<close>.
\<close>

definition Output ::
  "externals \<Rightarrow> 'x Logger \<Rightarrow> string \<Rightarrow> time \<Rightarrow> val \<Rightarrow> 'x world \<Rightarrow> error option \<times> 'x world" where
  "Output ext lg tag t v w =
     (let w' = w\<lparr>output_calls := output_calls w @ [(tag, t, v)]\<rparr>
      in case Logger_output lg of
           New_output_hook \<Rightarrow> New_output ext lg tag t v w'
         | Set_output_hook f \<Rightarrow>
             (case f tag t v (extern w') of (err, x') \<Rightarrow> (err, w'\<lparr>extern := x'\<rparr>)))"

text \<open>\<open>func (l *Logger) checkLogLevel(level Level) bool\<close>\<close>

definition checkLogLevel :: "'x Logger \<Rightarrow> Level \<Rightarrow> bool" where
  "checkLogLevel lg level = (level \<le> Logger_l lg)"

text \<open>
  The leveled methods. The argument \<open>now\<close> is what \<open>time.Now()\<close> returns in the call.
\<close>

definition Emerg :: "externals \<Rightarrow> 'x Logger \<Rightarrow> time \<Rightarrow> val \<Rightarrow> 'x world \<Rightarrow> error option \<times> 'x world" where
  "Emerg ext lg now v w = Output ext lg (Level_String EmergLevel) now (ErrorWithStack ext v) w"

definition Alert :: "externals \<Rightarrow> 'x Logger \<Rightarrow> time \<Rightarrow> val \<Rightarrow> 'x world \<Rightarrow> error option \<times> 'x world" where
  "Alert ext lg now v w =
     (if checkLogLevel lg AlertLevel
      then Output ext lg (Level_String AlertLevel) now (ErrorWithStack ext v) w
      else (None, w))"

definition Crit :: "externals \<Rightarrow> 'x Logger \<Rightarrow> time \<Rightarrow> val \<Rightarrow> 'x world \<Rightarrow> error option \<times> 'x world" where
  "Crit ext lg now v w =
     (if checkLogLevel lg CritiLevel
      then Output ext lg (Level_String CritiLevel) now (ErrorWithStack ext v) w
      else (None, w))"

definition Err :: "externals \<Rightarrow> 'x Logger \<Rightarrow> time \<Rightarrow> val \<Rightarrow> 'x world \<Rightarrow> error option \<times> 'x world" where
  "Err ext lg now v w =
     (if checkLogLevel lg ErrLevel
      then Output ext lg (Level_String ErrLevel) now (ErrorWithStack ext v) w
      else (None, w))"

definition Warning :: "externals \<Rightarrow> 'x Logger \<Rightarrow> time \<Rightarrow> val \<Rightarrow> 'x world \<Rightarrow> error option \<times> 'x world" where
  "Warning ext lg now v w =
     (if checkLogLevel lg WarningLevel
      then Output ext lg (Level_String WarningLevel) now v w
      else (None, w))"

definition Notice :: "externals \<Rightarrow> 'x Logger \<Rightarrow> time \<Rightarrow> val \<Rightarrow> 'x world \<Rightarrow> error option \<times> 'x world" where
  "Notice ext lg now v w =
     (if checkLogLevel lg NoticeLevel
      then Output ext lg (Level_String NoticeLevel) now v w
      else (None, w))"

definition Info :: "externals \<Rightarrow> 'x Logger \<Rightarrow> time \<Rightarrow> val \<Rightarrow> 'x world \<Rightarrow> error option \<times> 'x world" where
  "Info ext lg now v w =
     (if checkLogLevel lg InfoLevel
      then Output ext lg (Level_String InfoLevel) now v w
      else (None, w))"

definition Debug :: "externals \<Rightarrow> 'x Logger \<Rightarrow> time \<Rightarrow> val \<Rightarrow> 'x world \<Rightarrow> error option \<times> 'x world" where
  "Debug ext lg now v w =
     (if checkLogLevel lg DebugLevel
      then Output ext lg (Level_String DebugLevel) now v w
      else (None, w))"

definition Debugf ::
  "externals \<Rightarrow> 'x Logger \<Rightarrow> time \<Rightarrow> string \<Rightarrow> val list \<Rightarrow> 'x world \<Rightarrow> error option \<times> 'x world" where
  "Debugf ext lg now fmt args w =
     (if checkLogLevel lg DebugLevel
      then Output ext lg (Level_String DebugLevel) now (StrV (Sprintf ext fmt args)) w
      else (None, w))"

text \<open>
  \<open>func (l *Logger) SetLevel(level Level) *Logger\<close>: the first component is the value of
  the panic, if any; the second is the Logger after the call.
\<close>

definition invalid_level :: error where
  "invalid_level = Error ''invalid logger level''"

definition SetLevel :: "Level \<Rightarrow> 'x Logger \<Rightarrow> error option \<times> 'x Logger" where
  "SetLevel level lg =
     (if level > DebugLevel then (Some invalid_level, lg)
      else (None, lg\<lparr>Logger_l := level\<rparr>))"

subsection \<open>The end hook of Serve\<close>

text \<open>\<open>func (l *Logger) FromCtx(ctx *gear.Context) Log\<close>\<close>

definition FromCtx :: "Context \<Rightarrow> Log" where
  "FromCtx ctx = Any_Log ctx"

text \<open>
  The function that \<open>Serve\<close> passes to \<open>ctx.OnEnd\<close>, for the record \<open>log\<close> it captured.
  It runs when the unit of work ends, on the context as it is then.
\<close>

definition end_hook :: "'x Logger \<Rightarrow> Log \<Rightarrow> Context \<Rightarrow> 'x world \<Rightarrow> error + 'x world" where
  "end_hook lg log ctx w =
     (if len (logs w) log = 0 then Inr w
      else
        (case map_assign log ''Status'' (IntV (Res_Status ctx)) (logs w) of
           Inl e \<Rightarrow> Inl e
         | Inr h1 \<Rightarrow>
             (case map_assign log ''Length'' (IntV (int (length (Res_Body ctx)))) h1 of
                Inl e \<Rightarrow> Inl e
              | Inr h2 \<Rightarrow>
                  (case Logger_consume lg log ctx (h2, extern w) of
                     (h3, x') \<Rightarrow>
                       Inr (w\<lparr>logs := h3, extern := x',
                              consume_calls := consume_calls w @ [(log, ctx)]\<rparr>)))))"

text \<open>
  \<open>func (l *Logger) Serve(ctx *gear.Context) error\<close>: returns nil, and registers the end
  hook for the record of the context.
\<close>

definition Serve ::
  "'x Logger \<Rightarrow> Context \<Rightarrow> error option \<times> (Context \<Rightarrow> 'x world \<Rightarrow> error + 'x world)" where
  "Serve lg ctx = (None, end_hook lg (FromCtx ctx))"

subsection \<open>Calls of the leveled methods, and instances for evaluation\<close>

text \<open>
  A call of one of the leveled methods that check the level, with its arguments; the
  level the method checks; and the method applied.
\<close>

datatype call =
    Call_Alert val
  | Call_Crit val
  | Call_Err val
  | Call_Warning val
  | Call_Notice val
  | Call_Info val
  | Call_Debug val
  | Call_Debugf string "val list"

fun severity :: "call \<Rightarrow> Level" where
  "severity (Call_Alert v) = AlertLevel"
| "severity (Call_Crit v) = CritiLevel"
| "severity (Call_Err v) = ErrLevel"
| "severity (Call_Warning v) = WarningLevel"
| "severity (Call_Notice v) = NoticeLevel"
| "severity (Call_Info v) = InfoLevel"
| "severity (Call_Debug v) = DebugLevel"
| "severity (Call_Debugf fmt args) = DebugLevel"

fun invoke :: "externals \<Rightarrow> 'x Logger \<Rightarrow> time \<Rightarrow> call \<Rightarrow> 'x world \<Rightarrow> error option \<times> 'x world" where
  "invoke ext lg now (Call_Alert v) w = Alert ext lg now v w"
| "invoke ext lg now (Call_Crit v) w = Crit ext lg now v w"
| "invoke ext lg now (Call_Err v) w = Err ext lg now v w"
| "invoke ext lg now (Call_Warning v) w = Warning ext lg now v w"
| "invoke ext lg now (Call_Notice v) w = Notice ext lg now v w"
| "invoke ext lg now (Call_Info v) w = Info ext lg now v w"
| "invoke ext lg now (Call_Debug v) w = Debug ext lg now v w"
| "invoke ext lg now (Call_Debugf fmt args) w = Debugf ext lg now fmt args w"

text \<open>
  One instance of the parameters, to run the model on examples: the wrapped error is a
  \<open>Messager\<close>, a string prints as itself, three string operands are laid out as the
  format \<open>[%s] %s %s\<close> lays them out, and every time prints as \<open>T\<close>.
\<close>

definition example_externals :: externals where
  "example_externals =
     \<lparr>ErrorWithStack = (\<lambda>v. MessagerV (''{\"error\":1}'', None) ''error''),
      Sprint = (\<lambda>v. case v of StrV s \<Rightarrow> s | _ \<Rightarrow> ''?''),
      Sprintf = (\<lambda>fmt args. case args of
                   [StrV a, StrV b, StrV c] \<Rightarrow> ''['' @ a @ ''] '' @ b @ '' '' @ c
                 | _ \<Rightarrow> fmt),
      Time_Format = (\<lambda>layout t. ''T'')\<rparr>"

text \<open>A Logger with the level and the formats that \<open>New\<close> sets, and the output closure of \<open>New\<close>.\<close>

definition example_Logger :: "unit Logger" where
  "example_Logger =
     \<lparr>Logger_l = DebugLevel,
      Logger_tf = ''2006-01-02T15:04:05.999Z'',
      Logger_lf = ''[%s] %s %s'',
      Logger_output = New_output_hook,
      Logger_consume = (\<lambda>log ctx s. s)\<rparr>"

text \<open>A world whose destination has accepted nothing yet and answers as given.\<close>

definition example_world :: "(nat \<times> error) option list \<Rightarrow> unit world" where
  "example_world as =
     \<lparr>dest = Writer [] as,
      logs = \<lparr>cells = (\<lambda>a. DAList.empty), nxt = 0\<rparr>,
      extern = (),
      output_calls = [],
      consume_calls = []\<rparr>"

text \<open>
  A heap with two records that share the key \<open>key\<close>: \<open>Log{"a": 1, "key": "foo"}\<close> at
  address 0 and \<open>Log{"key": "bar"}\<close> at address 1.
\<close>

definition example_heap :: heap where
  "example_heap =
     \<lparr>cells = (\<lambda>a. DAList.empty)
        (0 := DAList.update ''key'' (StrV ''foo'') (DAList.update ''a'' (IntV 1) DAList.empty),
         1 := DAList.update ''key'' (StrV ''bar'') DAList.empty),
      nxt = 2\<rparr>"

section \<open>Properties\<close>

subsection \<open>Levels\<close>

lemmas Level_defs =
  EmergLevel_def AlertLevel_def CritiLevel_def ErrLevel_def
  WarningLevel_def NoticeLevel_def InfoLevel_def DebugLevel_def

lemma unat_Level_eq_iff: "(unat (lv :: Level) = n) = (lv = of_nat n \<and> n < 256)"
proof
  assume "unat lv = n"
  then have "lv = of_nat n" and "n < 2 ^ LENGTH(8)"
    using unsigned_less [of lv] by auto
  then show "lv = of_nat n \<and> n < 256" by simp
next
  assume "lv = of_nat n \<and> n < 256"
  then show "unat lv = n" by (simp add: unat_of_nat)
qed

text \<open>
  Claim C10. \<open>Level.String\<close> returns \<open>LOG\<close> for every level whose ordinal is above 7, and
  the short names EMERG, ALERT, CRIT, ERR, WARNING, NOTICE, INFO, DEBUG for the ordinals
  0 to 7.
\<close>

theorem Level_String_names:
  "(7 < unat lv \<longrightarrow> Level_String lv = ''LOG'')
   \<and> (unat lv = 0 \<longrightarrow> Level_String lv = ''EMERG'')
   \<and> (unat lv = 1 \<longrightarrow> Level_String lv = ''ALERT'')
   \<and> (unat lv = 2 \<longrightarrow> Level_String lv = ''CRIT'')
   \<and> (unat lv = 3 \<longrightarrow> Level_String lv = ''ERR'')
   \<and> (unat lv = 4 \<longrightarrow> Level_String lv = ''WARNING'')
   \<and> (unat lv = 5 \<longrightarrow> Level_String lv = ''NOTICE'')
   \<and> (unat lv = 6 \<longrightarrow> Level_String lv = ''INFO'')
   \<and> (unat lv = 7 \<longrightarrow> Level_String lv = ''DEBUG'')"
  by (auto simp: Level_String_def Level_defs unat_Level_eq_iff)

theorem Level_String_names_witness:
  "7 < unat (200 :: Level) \<and> Level_String 200 = ''LOG''
   \<and> unat (3 :: Level) = 3 \<and> Level_String 3 = ''ERR''
   \<and> unat (0 :: Level) = 0 \<and> Level_String 0 = ''EMERG''"
  using Level_String_names [of 200] Level_String_names [of 3] Level_String_names [of 0]
  by simp

text \<open>
  Claim C4. \<open>SetLevel\<close> with a level outside the ordinals 0 to 7 panics and leaves the
  Logger, and so its level, as it was; with a level inside the range it stores the level
  and returns the Logger without a panic.
\<close>

theorem SetLevel_range:
  "(7 < unat level \<longrightarrow> SetLevel level lg = (Some invalid_level, lg))
   \<and> (unat level \<le> 7 \<longrightarrow> SetLevel level lg = (None, lg\<lparr>Logger_l := level\<rparr>))"
  by (auto simp: SetLevel_def DebugLevel_def word_less_nat_alt)

theorem SetLevel_range_witness:
  "7 < unat (8 :: Level)
   \<and> SetLevel 8 example_Logger = (Some invalid_level, example_Logger)
   \<and> Logger_l (snd (SetLevel 8 example_Logger)) = DebugLevel
   \<and> unat (4 :: Level) \<le> 7
   \<and> fst (SetLevel 4 example_Logger) = None
   \<and> Logger_l (snd (SetLevel 4 example_Logger)) = WarningLevel"
  using SetLevel_range [of 8 example_Logger] SetLevel_range [of 4 example_Logger]
  by (simp add: example_Logger_def WarningLevel_def)

subsection \<open>The formatter\<close>

text \<open>
  Claim C9. For a \<open>Messager\<close> whose \<open>Format\<close> succeeds, \<open>format\<close> returns that string and
  no error; for a \<open>Messager\<close> whose \<open>Format\<close> fails, it returns the \<open>String()\<close> rendering
  together with the error of \<open>Format\<close>; for a value that is not a \<open>Messager\<close>, it returns
  \<open>fmt.Sprint\<close> of the value and no error.
\<close>

theorem format_cases:
  "format ext (MessagerV (str, None) dbg) = (str, None)
   \<and> format ext (MessagerV (str, Some e) dbg) = (dbg, Some e)
   \<and> (\<not> is_Messager v \<longrightarrow> format ext v = (Sprint ext v, None))"
  by (cases v) simp_all

theorem format_cases_witness:
  "\<not> is_Messager (StrV ''plain'')
   \<and> format example_externals (StrV ''plain'') = (''plain'', None)
   \<and> format example_externals (MessagerV (''{}'', None) ''Log{}'') = (''{}'', None)
   \<and> format example_externals (MessagerV ([], Some (Error ''unsupported'')) ''Log{}'')
       = (''Log{}'', Some (Error ''unsupported''))"
  using format_cases [of example_externals "''{}''" "''Log{}''" "Error ''unsupported''" "StrV ''plain''"]
    format_cases [of example_externals "[]" "''Log{}''" "Error ''unsupported''" "StrV ''plain''"]
  by (simp add: example_externals_def)

subsection \<open>The leveled methods\<close>

lemma New_output_calls: "output_calls (snd (New_output ext lg tag t v w)) = output_calls w"
  by (simp add: New_output_def split: prod.splits option.splits)

lemma Output_calls:
  "output_calls (snd (Output ext lg tag t v w)) = output_calls w @ [(tag, t, v)]"
  by (simp add: Output_def Let_def New_output_calls split: output_hook.splits prod.splits)

lemmas method_defs =
  Alert_def Crit_def Err_def Warning_def Notice_def Info_def Debug_def Debugf_def

lemma invoke_permitted:
  "severity c \<le> Logger_l lg \<Longrightarrow>
     \<exists>v. invoke ext lg now c w = Output ext lg (Level_String (severity c)) now v w"
  by (cases c) (auto simp: method_defs checkLogLevel_def)

lemma invoke_filtered:
  "\<not> severity c \<le> Logger_l lg \<Longrightarrow> invoke ext lg now c w = (None, w)"
  by (cases c) (auto simp: method_defs checkLogLevel_def)

text \<open>
  Claim C1. For every threshold and every call of \<open>Alert\<close>, \<open>Crit\<close>, \<open>Err\<close>, \<open>Warning\<close>,
  \<open>Notice\<close>, \<open>Info\<close>, \<open>Debug\<close> or \<open>Debugf\<close>: when the ordinal of the method's level is at
  most the ordinal of the threshold, the call is a call of \<open>Output\<close> with the name of the
  level, and exactly one call of the output hook is recorded; otherwise the method
  returns nil and leaves everything as it was, the destination included. So the output
  hook is called if and only if the ordinal of the level is at most that of the
  threshold.
\<close>

theorem leveled_emission_iff:
  "(unat (severity c) \<le> unat (Logger_l lg) \<longrightarrow>
      (\<exists>v. invoke ext lg now c w = Output ext lg (Level_String (severity c)) now v w
         \<and> output_calls (snd (invoke ext lg now c w))
             = output_calls w @ [(Level_String (severity c), now, v)]))
   \<and> (\<not> unat (severity c) \<le> unat (Logger_l lg) \<longrightarrow>
        invoke ext lg now c w = (None, w)
        \<and> written (dest (snd (invoke ext lg now c w))) = written (dest w))
   \<and> ((output_calls (snd (invoke ext lg now c w)) \<noteq> output_calls w)
        = (unat (severity c) \<le> unat (Logger_l lg)))"
proof (cases "severity c \<le> Logger_l lg")
  case True
  then obtain v where v: "invoke ext lg now c w = Output ext lg (Level_String (severity c)) now v w"
    using invoke_permitted by blast
  have "output_calls (snd (invoke ext lg now c w))
          = output_calls w @ [(Level_String (severity c), now, v)]"
    by (simp add: v Output_calls)
  with True v show ?thesis by (auto simp: word_le_nat_alt)
next
  case False
  then show ?thesis by (simp add: invoke_filtered word_le_nat_alt)
qed

theorem leveled_emission_iff_witness:
  "unat (severity (Call_Info (StrV ''hi''))) \<le> unat (Logger_l example_Logger)
   \<and> output_calls (snd (invoke example_externals example_Logger 0 (Call_Info (StrV ''hi''))
        (example_world []))) = [(''INFO'', 0, StrV ''hi'')]
   \<and> \<not> unat (severity (Call_Debug (StrV ''hi''))) \<le> unat (Logger_l (example_Logger\<lparr>Logger_l := InfoLevel\<rparr>))
   \<and> invoke example_externals (example_Logger\<lparr>Logger_l := InfoLevel\<rparr>) 0 (Call_Debug (StrV ''hi''))
        (example_world []) = (None, example_world [])"
  using leveled_emission_iff [of "Call_Info (StrV ''hi'')" example_Logger example_externals 0
      "example_world []"]
    leveled_emission_iff [of "Call_Debug (StrV ''hi'')" "example_Logger\<lparr>Logger_l := InfoLevel\<rparr>"
      example_externals 0 "example_world []"]
  by (auto simp: example_Logger_def example_world_def Level_defs Level_String_def
      Info_def checkLogLevel_def Output_calls)

text \<open>
  Claim C6. Whatever the threshold, \<open>Emerg\<close> is a call of \<open>Output\<close> with the tag \<open>EMERG\<close>
  and the value wrapped by \<open>gear.ErrorWithStack\<close>; it checks no level, and one call of the
  output hook with that wrapped value is recorded.
\<close>

theorem Emerg_always:
  "Emerg ext lg now v w = Output ext lg ''EMERG'' now (ErrorWithStack ext v) w
   \<and> output_calls (snd (Emerg ext lg now v w))
       = output_calls w @ [(''EMERG'', now, ErrorWithStack ext v)]"
  by (simp add: Emerg_def Output_calls Level_String_def Level_defs)

theorem Emerg_always_witness:
  "output_calls (snd (Emerg example_externals (example_Logger\<lparr>Logger_l := EmergLevel\<rparr>) 0
        (StrV ''down'') (example_world [])))
     = [(''EMERG'', 0, MessagerV (''{\"error\":1}'', None) ''error'')]"
  using conjunct2 [OF Emerg_always [of example_externals "example_Logger\<lparr>Logger_l := EmergLevel\<rparr>" 0
      "StrV ''down''" "example_world []"]]
  by (simp add: example_externals_def example_world_def)

text \<open>
  Claim C7. The value that reaches the output hook: \<open>Emerg\<close>, \<open>Alert\<close>, \<open>Crit\<close> and \<open>Err\<close>
  pass the value wrapped by \<open>gear.ErrorWithStack\<close>; \<open>Warning\<close>, \<open>Notice\<close>, \<open>Info\<close> and
  \<open>Debug\<close> pass the value itself; \<open>Debugf\<close> passes the string that \<open>fmt.Sprintf\<close> makes,
  itself. (Each list is the calls of the output hook that the method adds: one call when
  the level is permitted, none otherwise.)
\<close>

theorem value_wrapping:
  "output_calls (snd (Emerg ext lg now v w))
     = output_calls w @ [(''EMERG'', now, ErrorWithStack ext v)]
   \<and> output_calls (snd (Alert ext lg now v w))
     = output_calls w @ (if AlertLevel \<le> Logger_l lg then [(''ALERT'', now, ErrorWithStack ext v)] else [])
   \<and> output_calls (snd (Crit ext lg now v w))
     = output_calls w @ (if CritiLevel \<le> Logger_l lg then [(''CRIT'', now, ErrorWithStack ext v)] else [])
   \<and> output_calls (snd (Err ext lg now v w))
     = output_calls w @ (if ErrLevel \<le> Logger_l lg then [(''ERR'', now, ErrorWithStack ext v)] else [])
   \<and> output_calls (snd (Warning ext lg now v w))
     = output_calls w @ (if WarningLevel \<le> Logger_l lg then [(''WARNING'', now, v)] else [])
   \<and> output_calls (snd (Notice ext lg now v w))
     = output_calls w @ (if NoticeLevel \<le> Logger_l lg then [(''NOTICE'', now, v)] else [])
   \<and> output_calls (snd (Info ext lg now v w))
     = output_calls w @ (if InfoLevel \<le> Logger_l lg then [(''INFO'', now, v)] else [])
   \<and> output_calls (snd (Debug ext lg now v w))
     = output_calls w @ (if DebugLevel \<le> Logger_l lg then [(''DEBUG'', now, v)] else [])
   \<and> output_calls (snd (Debugf ext lg now fmt args w))
     = output_calls w
       @ (if DebugLevel \<le> Logger_l lg then [(''DEBUG'', now, StrV (Sprintf ext fmt args))] else [])"
  by (simp add: Emerg_def method_defs checkLogLevel_def Output_calls Level_String_def Level_defs)

theorem value_wrapping_witness:
  "ErrLevel \<le> Logger_l example_Logger
   \<and> output_calls (snd (Err example_externals example_Logger 0 (StrV ''boom'') (example_world [])))
       = [(''ERR'', 0, MessagerV (''{\"error\":1}'', None) ''error'')]
   \<and> WarningLevel \<le> Logger_l example_Logger
   \<and> output_calls (snd (Warning example_externals example_Logger 0 (StrV ''boom'') (example_world [])))
       = [(''WARNING'', 0, StrV ''boom'')]"
  using value_wrapping [of example_externals example_Logger 0 "StrV ''boom''" "example_world []"]
  by (simp add: example_externals_def example_Logger_def example_world_def Level_defs)

subsection \<open>The output closure of New\<close>

lemma Replace_concat:
  "crlfEscaper_Replace s =
     concat (map (\<lambda>c. if c = CR then [BSLASH, CHR ''r'']
                      else if c = LF then [BSLASH, CHR ''n''] else [c]) s)"
  by (induction s) simp_all

lemma Replace_no_CR_LF:
  "CR \<notin> set (crlfEscaper_Replace s) \<and> LF \<notin> set (crlfEscaper_Replace s)"
  by (induction s) (auto simp: CR_def LF_def BSLASH_def)

lemma strip_newline_last:
  "strip_newline s = (if s \<noteq> [] \<and> last s = LF then butlast s else s)"
  by (cases "s = []") (auto simp: strip_newline_def last_conv_nth butlast_conv_take)

lemma Write_accepting:
  "answers d = [] \<Longrightarrow> Write p d = (None, Writer (written d @ p) [])"
  by (cases d) simp

lemma New_output_format_error:
  "format ext v = (s, Some e) \<Longrightarrow> New_output ext lg tag t v w = (Some e, w)"
  by (simp add: New_output_def)

lemma New_output_line_error:
  "format ext v = (s, None) \<Longrightarrow>
   Write (formatted_line ext lg tag t s) (dest w) = (Some e, d1) \<Longrightarrow>
     New_output ext lg tag t v w = (Some e, w\<lparr>dest := d1\<rparr>)"
  by (simp add: New_output_def Fprintf_def formatted_line_def)

lemma New_output_line_ok:
  "format ext v = (s, None) \<Longrightarrow>
   Write (formatted_line ext lg tag t s) (dest w) = (None, d1) \<Longrightarrow>
     New_output ext lg tag t v w = (None, w\<lparr>dest := snd (Write [LF] d1)\<rparr>)"
  by (simp add: New_output_def Fprintf_def formatted_line_def)

lemma New_output_accepting:
  assumes "format ext v = (s, None)" and "answers (dest w) = []"
  shows "fst (New_output ext lg tag t v w) = None"
    and "written (dest (snd (New_output ext lg tag t v w)))
           = written (dest w) @ formatted_line ext lg tag t s @ [LF]"
  using assms by (simp_all add: New_output_def Fprintf_def formatted_line_def Write_accepting)

text \<open>
  Claim C2. The message operand of the line is made from the rendered string by taking
  off one trailing line feed, if there is one, and then putting the two bytes backslash
  \<open>r\<close> for every carriage return and backslash \<open>n\<close> for every line feed; it holds no
  carriage return and no line feed. When the value renders without error and the
  destination accepts the writes, the bytes written are the format applied to the
  timestamp, the tag and this operand, and one line feed.
\<close>

theorem output_message_escaped:
  "message_operand s =
     concat (map (\<lambda>c. if c = CR then [BSLASH, CHR ''r'']
                      else if c = LF then [BSLASH, CHR ''n''] else [c])
       (if s \<noteq> [] \<and> last s = LF then butlast s else s))
   \<and> CR \<notin> set (message_operand s) \<and> LF \<notin> set (message_operand s)
   \<and> (format ext v = (s, None) \<and> answers (dest w) = [] \<longrightarrow>
        written (dest (snd (New_output ext lg tag t v w)))
          = written (dest w)
            @ Sprintf ext (Logger_lf lg)
                [StrV (Time_Format ext (Logger_tf lg) t), StrV tag, StrV (message_operand s)]
            @ [LF])"
proof -
  have "message_operand s = crlfEscaper_Replace (if s \<noteq> [] \<and> last s = LF then butlast s else s)"
    unfolding message_operand_def strip_newline_last ..
  then show ?thesis
    using Replace_no_CR_LF [of "strip_newline s"] New_output_accepting(2) [of ext v s w lg tag t]
    by (simp add: Replace_concat message_operand_def formatted_line_def)
qed

theorem output_message_escaped_witness:
  "format example_externals (StrV [CHR ''a'', CR, LF, CHR ''b'', LF])
     = ([CHR ''a'', CR, LF, CHR ''b'', LF], None)
   \<and> answers (dest (example_world [])) = []
   \<and> message_operand [CHR ''a'', CR, LF, CHR ''b'', LF]
       = [CHR ''a'', BSLASH, CHR ''r'', BSLASH, CHR ''n'', CHR ''b'']
   \<and> written (dest (snd (New_output example_externals example_Logger ''INFO'' 0
         (StrV [CHR ''a'', CR, LF, CHR ''b'', LF]) (example_world []))))
       = ''[T] INFO a'' @ [BSLASH, CHR ''r'', BSLASH, CHR ''n'', CHR ''b'', LF]"
  using output_message_escaped [of "[CHR ''a'', CR, LF, CHR ''b'', LF]" example_externals
      "StrV [CHR ''a'', CR, LF, CHR ''b'', LF]" "example_world []" example_Logger "''INFO''" 0]
  by (simp add: example_externals_def example_Logger_def example_world_def CR_def LF_def BSLASH_def)

text \<open>
  Claim C5. The closure is to return the first error it meets, the error of writing the
  trailing line feed included. The code does not: it returns the error of rendering and
  the error of the \<open>Fprintf\<close> write, but calls \<open>logger.Out.Write\<close> for the line feed as
  a statement and drops what it returns (and so makes two calls of \<open>Write\<close>, where the
  comment on \<open>Logger\<close> promises a single one). At this input the destination accepts
  the line and fails on the line feed: the closure returns nil, and the destination
  holds the line with no line feed.
\<close>

theorem newline_error_discarded:
  "fst (New_output example_externals example_Logger ''INFO'' 0 (StrV ''hi'')
          (example_world [None, Some (0, Error ''disk full'')])) = None
   \<and> fst (Write [LF]
          (snd (Write (formatted_line example_externals example_Logger ''INFO'' 0 ''hi'')
             (dest (example_world [None, Some (0, Error ''disk full'')])))))
       = Some (Error ''disk full'')
   \<and> written (dest (snd (New_output example_externals example_Logger ''INFO'' 0 (StrV ''hi'')
          (example_world [None, Some (0, Error ''disk full'')])))) = ''[T] INFO hi''"
  by (simp add: New_output_def Fprintf_def formatted_line_def message_operand_def strip_newline_def
      example_externals_def example_Logger_def example_world_def LF_def CR_def)

subsection \<open>Reset and the end hook\<close>

lemma map_delete_nxt: "nxt (map_delete lg k h) = nxt h"
  by (cases lg) simp_all

lemma map_delete_other: "LogAt b \<noteq> lg \<Longrightarrow> cells (map_delete lg k h) b = cells h b"
  by (cases lg) simp_all

lemma map_delete_entries:
  "entries (map_delete lg k h) lg = filter (\<lambda>p. fst p \<noteq> k) (entries h lg)"
  by (cases lg) (auto simp: delete.rep_eq AList.delete_eq intro: filter_cong)

lemma delete_keys_nxt: "nxt (delete_keys ks lg h) = nxt h"
  by (induction ks arbitrary: h) (simp_all add: map_delete_nxt)

lemma delete_keys_other: "LogAt b \<noteq> lg \<Longrightarrow> cells (delete_keys ks lg h) b = cells h b"
  by (induction ks arbitrary: h) (simp_all add: map_delete_other)

lemma delete_keys_entries:
  "entries (delete_keys ks lg h) lg = filter (\<lambda>p. fst p \<notin> set ks) (entries h lg)"
proof (induction ks arbitrary: h)
  case Nil
  then show ?case by simp
next
  case (Cons k ks)
  have "entries (delete_keys (k # ks) lg h) lg
          = filter (\<lambda>p. fst p \<notin> set ks) (filter (\<lambda>p. fst p \<noteq> k) (entries h lg))"
    by (simp add: Cons.IH map_delete_entries)
  also have "\<dots> = filter (\<lambda>p. fst p \<notin> set (k # ks)) (entries h lg)"
    by (auto intro: filter_cong)
  finally show ?case .
qed

lemma Reset_entries: "entries (Reset lg h) lg = []"
  by (simp add: Reset_def delete_keys_entries filter_empty_conv)

lemma Reset_len: "len (Reset lg h) lg = 0"
  by (simp add: len_def Reset_entries)

lemma Reset_nxt: "nxt (Reset lg h) = nxt h"
  by (simp add: Reset_def delete_keys_nxt)

lemma Reset_other: "LogAt b \<noteq> lg \<Longrightarrow> cells (Reset lg h) b = cells h b"
  by (simp add: Reset_def delete_keys_other)

lemma end_hook_empty: "len (logs w) log = 0 \<Longrightarrow> end_hook lgr log ctx w = Inr w"
  by (simp add: end_hook_def)

lemma end_hook_nonempty:
  "len (logs w) (LogAt a) \<noteq> 0 \<Longrightarrow>
     \<exists>w'. end_hook lgr (LogAt a) ctx w = Inr w'
        \<and> consume_calls w' = consume_calls w @ [(LogAt a, ctx)]"
  by (auto simp: end_hook_def split: prod.splits)

text \<open>
  Claim C8. \<open>Reset\<close> leaves the record with no key, in place: the same map object is
  empty afterwards, and no other object changes. When the record has no key at the end
  of the unit of work, the end hook that \<open>Serve\<close> registers changes nothing: no call of
  the consume hook, no write to the destination, no \<open>Status\<close> or \<open>Length\<close> entry.
\<close>

theorem Reset_and_empty_flush:
  "entries (Reset lg h) lg = []
   \<and> len (Reset lg h) lg = 0
   \<and> nxt (Reset lg h) = nxt h
   \<and> (\<forall>b. LogAt b \<noteq> lg \<longrightarrow> cells (Reset lg h) b = cells h b)
   \<and> (len (logs w) log = 0 \<longrightarrow> end_hook lgr log ctx w = Inr w)
   \<and> (len (logs w) (Any_Log ctx) = 0 \<longrightarrow> snd (Serve lgr ctx) ctx' w = Inr w)
   \<and> end_hook lgr log ctx (w\<lparr>logs := Reset log (logs w)\<rparr>) = Inr (w\<lparr>logs := Reset log (logs w)\<rparr>)"
  by (simp add: Reset_entries Reset_len Reset_nxt Reset_other end_hook_empty Serve_def FromCtx_def)

theorem Reset_and_empty_flush_witness:
  "len example_heap (LogAt 0) = 2
   \<and> len (Reset (LogAt 0) example_heap) (LogAt 0) = 0
   \<and> LogAt 1 \<noteq> LogAt 0
   \<and> entries (Reset (LogAt 0) example_heap) (LogAt 1) = [(''key'', StrV ''bar'')]
   \<and> len (logs (example_world [])) (LogAt 0) = 0
   \<and> end_hook example_Logger (LogAt 0) \<lparr>Res_Status = 200, Res_Body = ''OK'', Any_Log = LogAt 0\<rparr>
        (example_world []) = Inr (example_world [])
   \<and> snd (Serve example_Logger \<lparr>Res_Status = 0, Res_Body = [], Any_Log = LogAt 0\<rparr>)
        \<lparr>Res_Status = 200, Res_Body = ''OK'', Any_Log = LogAt 0\<rparr> (example_world [])
       = Inr (example_world [])"
  using Reset_and_empty_flush [where lg = "LogAt 0" and h = example_heap and w = "example_world []"
      and log = "LogAt 0" and lgr = example_Logger
      and ctx = "\<lparr>Res_Status = 200, Res_Body = ''OK'', Any_Log = LogAt 0\<rparr>"]
    Reset_and_empty_flush [where lg = "LogAt 0" and h = example_heap and w = "example_world []"
      and log = "LogAt 0" and lgr = example_Logger
      and ctx = "\<lparr>Res_Status = 0, Res_Body = [], Any_Log = LogAt 0\<rparr>"
      and ctx' = "\<lparr>Res_Status = 200, Res_Body = ''OK'', Any_Log = LogAt 0\<rparr>"]
  by (simp add: example_heap_def example_world_def len_def DAList.update.rep_eq DAList.empty.rep_eq)

subsection \<open>From, Into and With\<close>

lemma copy_entries_LogAt:
  "\<exists>h'. copy_entries kvs (LogAt a) h = Inr h'
        \<and> nxt h' = nxt h
        \<and> (\<forall>b. b \<noteq> a \<longrightarrow> cells h' b = cells h b)
        \<and> (distinct (map fst kvs) \<longrightarrow>
             DAList.lookup (cells h' a) = DAList.lookup (cells h a) ++ map_of kvs)"
proof (induction kvs arbitrary: h)
  case Nil
  then show ?case by simp
next
  case (Cons kv kvs)
  obtain k v where kv: "kv = (k, v)" by (cases kv)
  define h1 where "h1 = h\<lparr>cells := (cells h)(a := DAList.update k v (cells h a))\<rparr>"
  from Cons.IH [of h1] obtain h' where h':
    "copy_entries kvs (LogAt a) h1 = Inr h'" "nxt h' = nxt h1"
    "\<forall>b. b \<noteq> a \<longrightarrow> cells h' b = cells h1 b"
    "distinct (map fst kvs) \<longrightarrow> DAList.lookup (cells h' a) = DAList.lookup (cells h1 a) ++ map_of kvs"
    by blast
  have step: "copy_entries (kv # kvs) (LogAt a) h = Inr h'"
    by (simp add: kv h1_def [symmetric] h'(1))
  have look: "DAList.lookup (cells h' a) = DAList.lookup (cells h a) ++ map_of (kv # kvs)"
    if d: "distinct (map fst (kv # kvs))"
  proof -
    from d have notin: "k \<notin> fst ` set kvs" and dk: "distinct (map fst kvs)"
      by (simp_all add: kv)
    then have none: "map_of kvs k = None" by (simp add: map_of_eq_None_iff)
    have "DAList.lookup (cells h' a) = (DAList.lookup (cells h a))(k \<mapsto> v) ++ map_of kvs"
      using h'(4) dk by (auto simp: h1_def fun_eq_iff map_add_def lookup_update split: option.splits)
    also have "\<dots> = DAList.lookup (cells h a) ++ map_of (kv # kvs)"
      using none by (auto simp: kv fun_eq_iff map_add_def split: option.splits)
    finally show ?thesis .
  qed
  have n: "nxt h' = nxt h"
    using h'(2) by (simp add: h1_def)
  have others: "\<forall>b. b \<noteq> a \<longrightarrow> cells h' b = cells h b"
    using h'(3) by (simp add: h1_def)
  show ?case
    using step n others look by blast
qed

lemma copy_entries_Nil: "copy_entries [] dst h = Inr h"
  by simp

lemma Log_get_entries: "Log_get h lg = map_of (entries h lg)"
  by (cases lg) (auto simp: DAList.lookup.rep_eq fun_eq_iff)

lemma distinct_entries: "distinct (map fst (entries h lg))"
  by (cases lg) simp_all

lemma copy_entries_lookup:
  assumes "dst \<noteq> NilLog \<or> entries h src = []"
  shows "\<exists>h'. copy_entries (entries h src) dst h = Inr h'
        \<and> Log_get h' dst = Log_get h dst ++ Log_get h src
        \<and> nxt h' = nxt h
        \<and> (\<forall>b. LogAt b \<noteq> dst \<longrightarrow> cells h' b = cells h b)"
proof (cases dst)
  case NilLog
  with assms have "entries h src = []" by simp
  then show ?thesis by (simp add: NilLog Log_get_entries)
next
  case (LogAt a)
  from copy_entries_LogAt [of "entries h src" a h] distinct_entries [of h src]
  obtain h' where h': "copy_entries (entries h src) (LogAt a) h = Inr h'" "nxt h' = nxt h"
    "\<forall>b. b \<noteq> a \<longrightarrow> cells h' b = cells h b"
    "DAList.lookup (cells h' a) = DAList.lookup (cells h a) ++ map_of (entries h src)"
    by blast
  then show ?thesis
    by (auto simp: LogAt Log_get_entries [of h src] fun_eq_iff map_add_def split: option.splits)
qed


lemma From_ok:
  assumes "lg \<noteq> NilLog \<or> entries h log = []"
  shows "\<exists>h'. From lg log h = Inr (lg, h')
        \<and> Log_get h' lg = Log_get h lg ++ Log_get h log
        \<and> nxt h' = nxt h
        \<and> (\<forall>b. LogAt b \<noteq> lg \<longrightarrow> cells h' b = cells h b)"
  using copy_entries_lookup [OF assms] by (auto simp: From_def)

lemma Into_ok:
  assumes "log \<noteq> NilLog \<or> entries h lg = []"
  shows "\<exists>h'. Into lg log h = Inr (log, h')
        \<and> Log_get h' log = Log_get h log ++ Log_get h lg
        \<and> nxt h' = nxt h
        \<and> (\<forall>b. LogAt b \<noteq> log \<longrightarrow> cells h' b = cells h b)"
  using copy_entries_lookup [OF assms] by (auto simp: Into_def)

lemma allocated_entries_new:
  "allocated h lg \<Longrightarrow>
     entries (h\<lparr>cells := (cells h)(nxt h := DAList.empty), nxt := Suc (nxt h)\<rparr>) lg = entries h lg"
  by (cases lg) auto

lemma With_ok:
  assumes "allocated h lg" and "allocated h log"
  shows "\<exists>h'. With lg log h = Inr (LogAt (nxt h), h')
        \<and> LogAt (nxt h) \<noteq> lg \<and> LogAt (nxt h) \<noteq> log
        \<and> Log_get h' (LogAt (nxt h)) = Log_get h lg ++ Log_get h log
        \<and> nxt h' = Suc (nxt h)
        \<and> (\<forall>b. b \<noteq> nxt h \<longrightarrow> cells h' b = cells h b)"
proof -
  define h0 where "h0 = h\<lparr>cells := (cells h)(nxt h := DAList.empty), nxt := Suc (nxt h)\<rparr>"
  let ?cp = "LogAt (nxt h)"
  have fresh: "?cp \<noteq> lg" "?cp \<noteq> log"
    using assms by auto
  have e0: "entries h0 lg = entries h lg" "entries h0 log = entries h log"
    using assms by (simp_all add: h0_def allocated_entries_new)
  have g0: "Log_get h0 ?cp = Map.empty"
    by (simp add: h0_def fun_eq_iff)
  from Into_ok [of ?cp h0 lg] obtain h1 where h1:
    "Into lg ?cp h0 = Inr (?cp, h1)" "Log_get h1 ?cp = Log_get h0 ?cp ++ Log_get h0 lg"
    "nxt h1 = nxt h0" "\<forall>b. LogAt b \<noteq> ?cp \<longrightarrow> cells h1 b = cells h0 b"
    by auto
  have e1: "entries h1 log = entries h log"
    using h1(4) fresh(2) e0(2) by (cases log) auto
  from copy_entries_lookup [of ?cp h1 log] obtain h2 where h2:
    "copy_entries (entries h1 log) ?cp h1 = Inr h2" "Log_get h2 ?cp = Log_get h1 ?cp ++ Log_get h1 log"
    "nxt h2 = nxt h1" "\<forall>b. LogAt b \<noteq> ?cp \<longrightarrow> cells h2 b = cells h1 b"
    by auto
  have w: "With lg log h = Inr (?cp, h2)"
    by (simp add: With_def new_Log_def h0_def [symmetric] h1(1) h2(1))
  have get: "Log_get h2 ?cp = Log_get h lg ++ Log_get h log"
    using h2(2) h1(2) g0 e0 e1 by (simp add: Log_get_entries)
  have frame: "\<forall>b. b \<noteq> nxt h \<longrightarrow> cells h2 b = cells h b"
    using h2(4) h1(4) by (simp add: h0_def)
  show ?thesis
    using w fresh get frame h2(3) h1(3) by (simp add: h0_def)
qed


text \<open>
  Claim C3, as stated, fails for a nil record: a \<open>Log\<close> may be nil, and storing into a
  nil map panics. \<open>From\<close> on a nil receiver, and \<open>Into\<close> with a nil argument, panic when
  the other record has a key.
\<close>

theorem merge_into_nil_panics:
  "From NilLog (LogAt 1) example_heap = Inl nil_map_panic
   \<and> Into (LogAt 1) NilLog example_heap = Inl nil_map_panic"
  by (simp add: From_def Into_def example_heap_def DAList.update.rep_eq DAList.empty.rep_eq)

text \<open>
  Claim C3, amended. When the receiver is not nil, or the argument has no key, \<open>From\<close>
  returns the receiver, whose map object then holds its old entries overlaid by those of
  the argument (the argument wins on a shared key); nothing else changes. When the
  argument is not nil, or the receiver has no key, \<open>Into\<close> returns the argument, whose
  map object then holds its old entries overlaid by those of the receiver (the receiver
  wins); nothing else changes. \<open>With\<close>, for allocated records, nil or not, returns a
  new map object that holds the entries of the receiver overlaid by those of the
  argument (the argument wins), and changes no other object.
\<close>

theorem merge_operations:
  "(lg \<noteq> NilLog \<or> entries h log = [] \<longrightarrow>
      (\<exists>h'. From lg log h = Inr (lg, h')
         \<and> Log_get h' lg = Log_get h lg ++ Log_get h log
         \<and> nxt h' = nxt h
         \<and> (\<forall>b. LogAt b \<noteq> lg \<longrightarrow> cells h' b = cells h b)))
   \<and> (log \<noteq> NilLog \<or> entries h lg = [] \<longrightarrow>
      (\<exists>h'. Into lg log h = Inr (log, h')
         \<and> Log_get h' log = Log_get h log ++ Log_get h lg
         \<and> nxt h' = nxt h
         \<and> (\<forall>b. LogAt b \<noteq> log \<longrightarrow> cells h' b = cells h b)))
   \<and> (allocated h lg \<and> allocated h log \<longrightarrow>
      (\<exists>h'. With lg log h = Inr (LogAt (nxt h), h')
         \<and> LogAt (nxt h) \<noteq> lg \<and> LogAt (nxt h) \<noteq> log
         \<and> Log_get h' (LogAt (nxt h)) = Log_get h lg ++ Log_get h log
         \<and> nxt h' = Suc (nxt h)
         \<and> (\<forall>b. b \<noteq> nxt h \<longrightarrow> cells h' b = cells h b)))"
  using From_ok [of lg h log] Into_ok [of log h lg] With_ok [of h lg log]
  by blast

theorem merge_operations_witness:
  "LogAt 0 \<noteq> NilLog
   \<and> (\<exists>h'. From (LogAt 0) (LogAt 1) example_heap = Inr (LogAt 0, h')
         \<and> Log_get h' (LogAt 0) ''key'' = Some (StrV ''bar'')
         \<and> Log_get h' (LogAt 0) ''a'' = Some (IntV 1)
         \<and> Log_get h' (LogAt 1) ''a'' = None)
   \<and> LogAt 1 \<noteq> NilLog
   \<and> (\<exists>h'. Into (LogAt 0) (LogAt 1) example_heap = Inr (LogAt 1, h')
         \<and> Log_get h' (LogAt 1) ''key'' = Some (StrV ''foo'')
         \<and> Log_get h' (LogAt 1) ''a'' = Some (IntV 1)
         \<and> Log_get h' (LogAt 0) ''key'' = Some (StrV ''foo''))
   \<and> allocated example_heap (LogAt 0) \<and> allocated example_heap (LogAt 1)
   \<and> (\<exists>h'. With (LogAt 0) (LogAt 1) example_heap = Inr (LogAt 2, h')
         \<and> Log_get h' (LogAt 2) ''key'' = Some (StrV ''bar'')
         \<and> Log_get h' (LogAt 2) ''a'' = Some (IntV 1)
         \<and> Log_get h' (LogAt 0) ''key'' = Some (StrV ''foo'')
         \<and> Log_get h' (LogAt 1) ''a'' = None)"
proof -
  have get0: "Log_get example_heap (LogAt 0) ''key'' = Some (StrV ''foo'')"
      "Log_get example_heap (LogAt 0) ''a'' = Some (IntV 1)"
    and get1: "Log_get example_heap (LogAt 1) ''key'' = Some (StrV ''bar'')"
      "Log_get example_heap (LogAt 1) ''a'' = None"
    and n: "nxt example_heap = 2"
    by (simp_all add: example_heap_def)
  have pre: "LogAt 0 \<noteq> NilLog \<or> entries example_heap (LogAt 1) = []"
      "LogAt 1 \<noteq> NilLog \<or> entries example_heap (LogAt 0) = []"
      "allocated example_heap (LogAt 0) \<and> allocated example_heap (LogAt 1)"
    by (simp_all add: n)
  note m = merge_operations [of "LogAt 0" example_heap "LogAt 1"]
  from m pre(1) obtain h1 where h1: "From (LogAt 0) (LogAt 1) example_heap = Inr (LogAt 0, h1)"
      "Log_get h1 (LogAt 0) = Log_get example_heap (LogAt 0) ++ Log_get example_heap (LogAt 1)"
      "\<forall>b. LogAt b \<noteq> LogAt 0 \<longrightarrow> cells h1 b = cells example_heap b"
    by blast
  from m pre(2) obtain h2 where h2: "Into (LogAt 0) (LogAt 1) example_heap = Inr (LogAt 1, h2)"
      "Log_get h2 (LogAt 1) = Log_get example_heap (LogAt 1) ++ Log_get example_heap (LogAt 0)"
      "\<forall>b. LogAt b \<noteq> LogAt 1 \<longrightarrow> cells h2 b = cells example_heap b"
    by blast
  from m pre(3) obtain h3 where h3:
      "With (LogAt 0) (LogAt 1) example_heap = Inr (LogAt (nxt example_heap), h3)"
      "Log_get h3 (LogAt (nxt example_heap))
         = Log_get example_heap (LogAt 0) ++ Log_get example_heap (LogAt 1)"
      "\<forall>b. b \<noteq> nxt example_heap \<longrightarrow> cells h3 b = cells example_heap b"
    by blast
  have c1: "cells h1 1 = cells example_heap 1" using h1(3) by simp
  have c2: "cells h2 0 = cells example_heap 0" using h2(3) by simp
  have c3: "cells h3 0 = cells example_heap 0" "cells h3 1 = cells example_heap 1"
    using h3(3) by (simp_all add: n)
  have r1: "Log_get h1 (LogAt 0) ''key'' = Some (StrV ''bar'')"
      "Log_get h1 (LogAt 0) ''a'' = Some (IntV 1)" "Log_get h1 (LogAt 1) ''a'' = None"
    using get0 get1 c1 fun_cong [OF h1(2), of "''key''"] fun_cong [OF h1(2), of "''a''"]
    by (simp_all add: map_add_def)
  have r2: "Log_get h2 (LogAt 1) ''key'' = Some (StrV ''foo'')"
      "Log_get h2 (LogAt 1) ''a'' = Some (IntV 1)" "Log_get h2 (LogAt 0) ''key'' = Some (StrV ''foo'')"
    using get0 get1 c2 fun_cong [OF h2(2), of "''key''"] fun_cong [OF h2(2), of "''a''"]
    by (simp_all add: map_add_def)
  have r3: "Log_get h3 (LogAt 2) ''key'' = Some (StrV ''bar'')"
      "Log_get h3 (LogAt 2) ''a'' = Some (IntV 1)" "Log_get h3 (LogAt 0) ''key'' = Some (StrV ''foo'')"
      "Log_get h3 (LogAt 1) ''a'' = None"
    using get0 get1 c3 fun_cong [OF h3(2), of "''key''"] fun_cong [OF h3(2), of "''a''"]
    by (simp_all add: n map_add_def)
  show ?thesis
    using pre h1(1) h2(1) h3(1) r1 r2 r3 by (simp add: n)
qed

end
